theory Spec2Isabelle
  imports Complex_Main
begin

section \<open>Python values used by the evaluator\<close>

text \<open>
  The embedding follows \<^verbatim>\<open>src/evaluation/src/evaluator.py\<close>. A Python \<^verbatim>\<open>str\<close> is a
  \<^typ>\<open>string\<close>, one \<^typ>\<open>char\<close> per character: a \<^typ>\<open>char\<close> is a code point below
  U+0100, and the character classes below are Python's on all of these code points
  (\<^verbatim>\<open>str.lower\<close>, \<^verbatim>\<open>str.isspace\<close> and the patterns \<^verbatim>\<open>\s\<close> and \<^verbatim>\<open>\w\<close>). Text with
  characters from U+0100 on is not a value of the model. A Python \<^verbatim>\<open>float\<close> is a
  \<^typ>\<open>real\<close>: the scores are exact here, where the program rounds each operation to
  a double, so a score of the program can differ from the model's in the last digits.
  The results below relate the scores of one run to each other and to what the run
  does with them; none depends on a digit that rounding changes. An exception is a
  value of \<open>py_error\<close> on the left of a sum.
\<close>

datatype py_error = ZeroDivisionError

definition py_truediv :: "nat \<Rightarrow> nat \<Rightarrow> py_error + real" where
  \<comment> \<open>\<^verbatim>\<open>a / b\<close> on two \<^verbatim>\<open>int\<close>s: raises on a zero divisor\<close>
  "py_truediv a b = (if b = 0 then Inl ZeroDivisionError else Inr (real a / real b))"

definition latin_uppers :: string where
  \<comment> \<open>the capital letters U+00C0 to U+00DE (U+00D7 is the multiplication sign)\<close>
  "latin_uppers = [CHR 0xC0, CHR 0xC1, CHR 0xC2, CHR 0xC3, CHR 0xC4, CHR 0xC5, CHR 0xC6, CHR 0xC7,
                   CHR 0xC8, CHR 0xC9, CHR 0xCA, CHR 0xCB, CHR 0xCC, CHR 0xCD, CHR 0xCE, CHR 0xCF,
                   CHR 0xD0, CHR 0xD1, CHR 0xD2, CHR 0xD3, CHR 0xD4, CHR 0xD5, CHR 0xD6, CHR 0xD8,
                   CHR 0xD9, CHR 0xDA, CHR 0xDB, CHR 0xDC, CHR 0xDD, CHR 0xDE]"

definition latin_lowers :: string where
  \<comment> \<open>their small forms U+00E0 to U+00FE (U+00F7 is the division sign)\<close>
  "latin_lowers = [CHR 0xE0, CHR 0xE1, CHR 0xE2, CHR 0xE3, CHR 0xE4, CHR 0xE5, CHR 0xE6, CHR 0xE7,
                   CHR 0xE8, CHR 0xE9, CHR 0xEA, CHR 0xEB, CHR 0xEC, CHR 0xED, CHR 0xEE, CHR 0xEF,
                   CHR 0xF0, CHR 0xF1, CHR 0xF2, CHR 0xF3, CHR 0xF4, CHR 0xF5, CHR 0xF6, CHR 0xF8,
                   CHR 0xF9, CHR 0xFA, CHR 0xFB, CHR 0xFC, CHR 0xFD, CHR 0xFE]"

definition uppers :: string where
  "uppers = ''ABCDEFGHIJKLMNOPQRSTUVWXYZ'' @ latin_uppers"

definition lowers :: string where
  "lowers = ''abcdefghijklmnopqrstuvwxyz'' @ latin_lowers"

definition case_pairs :: "(char \<times> char) list" where
  \<comment> \<open>every character below U+0100 that \<^verbatim>\<open>str.lower\<close> changes, with its image\<close>
  "case_pairs = zip uppers lowers"

definition lower_char :: "char \<Rightarrow> char" where
  "lower_char c = (case map_of case_pairs c of Some l \<Rightarrow> l | None \<Rightarrow> c)"

definition lower :: "string \<Rightarrow> string" where
  \<comment> \<open>\<^verbatim>\<open>s.lower()\<close>\<close>
  "lower s = map lower_char s"

definition isspace :: "char \<Rightarrow> bool" where
  \<comment> \<open>the characters below U+0100 that \<^verbatim>\<open>str.isspace\<close>, \<^verbatim>\<open>str.split\<close>, \<^verbatim>\<open>str.strip\<close> and
     the pattern \<^verbatim>\<open>\s\<close> take as whitespace: tab to carriage return, the separators
     U+001C to U+001F, the space, next line U+0085 and the no-break space U+00A0\<close>
  "isspace c = (c \<in> set [CHR 0x09, CHR 0x0A, CHR 0x0B, CHR 0x0C, CHR 0x0D,
                          CHR 0x1C, CHR 0x1D, CHR 0x1E, CHR 0x1F, CHR 0x20,
                          CHR 0x85, CHR 0xA0])"

definition is_word_char :: "char \<Rightarrow> bool" where
  \<comment> \<open>the class \<^verbatim>\<open>\w\<close> of a \<^verbatim>\<open>str\<close> pattern below U+0100: the alphanumeric characters
     (letters, digits, superscript digits, fractions) and the underscore\<close>
  "is_word_char c =
     (c \<in> set (''abcdefghijklmnopqrstuvwxyzABCDEFGHIJKLMNOPQRSTUVWXYZ0123456789_''
                @ [CHR 0xAA, CHR 0xB2, CHR 0xB3, CHR 0xB5, CHR 0xB9, CHR 0xBA,
                   CHR 0xBC, CHR 0xBD, CHR 0xBE, CHR 0xDF, CHR 0xFF]
                @ latin_uppers @ latin_lowers))"

fun startswith :: "string \<Rightarrow> string \<Rightarrow> bool" where
  \<comment> \<open>\<^verbatim>\<open>s.startswith(p)\<close>, written \<open>startswith p s\<close>\<close>
  "startswith [] s = True"
| "startswith (p # ps) [] = False"
| "startswith (p # ps) (c # cs) = (p = c \<and> startswith ps cs)"

fun contains :: "string \<Rightarrow> string \<Rightarrow> bool" where
  \<comment> \<open>\<^verbatim>\<open>sub in s\<close>, written \<open>contains sub s\<close>: \<open>sub\<close> starts at some position of \<open>s\<close>\<close>
  "contains sub [] = (sub = [])"
| "contains sub (c # cs) = (startswith sub (c # cs) \<or> contains sub cs)"

fun split_ws_from :: "string \<Rightarrow> string \<Rightarrow> string list" where
  \<comment> \<open>the scan of \<^verbatim>\<open>s.split()\<close>; \<open>cur\<close> is the word being read\<close>
  "split_ws_from cur [] = (if cur = [] then [] else [cur])"
| "split_ws_from cur (c # cs) =
     (if isspace c then (if cur = [] then split_ws_from [] cs else cur # split_ws_from [] cs)
      else split_ws_from (cur @ [c]) cs)"

definition split_ws :: "string \<Rightarrow> string list" where
  \<comment> \<open>\<^verbatim>\<open>s.split()\<close>: the maximal runs of non-whitespace characters\<close>
  "split_ws s = split_ws_from [] s"

fun split_sep_from :: "char \<Rightarrow> string \<Rightarrow> string \<Rightarrow> string list" where
  "split_sep_from sep cur [] = [cur]"
| "split_sep_from sep cur (c # cs) =
     (if c = sep then cur # split_sep_from sep [] cs else split_sep_from sep (cur @ [c]) cs)"

definition split_sep :: "char \<Rightarrow> string \<Rightarrow> string list" where
  \<comment> \<open>\<^verbatim>\<open>s.split(sep)\<close> for a one-character separator: empty pieces are kept\<close>
  "split_sep sep s = split_sep_from sep [] s"

definition strip :: "string \<Rightarrow> string" where
  \<comment> \<open>\<^verbatim>\<open>s.strip()\<close>\<close>
  "strip s = rev (dropWhile isspace (rev (dropWhile isspace s)))"

definition digit_char :: "nat \<Rightarrow> char" where
  "digit_char d = ''0123456789'' ! d"

fun str_of_nat :: "nat \<Rightarrow> string" where
  \<comment> \<open>the decimal text an f-string writes for a non-negative \<^verbatim>\<open>int\<close>\<close>
  "str_of_nat n =
     (if n < 10 then [digit_char n] else str_of_nat (n div 10) @ [digit_char (n mod 10)])"

declare str_of_nat.simps [simp del]

section \<open>The data classes\<close>

record Criteria =
  goals :: "string list"
  constraints :: "string list"
  must_include :: "string list"
  nice_to_have :: "string list"
  disallowed :: "string list"

record Claim =
  claim_text :: string
  evidence_needed :: string
  priority :: string

text \<open>
  A search result is the dictionary with the keys \<^verbatim>\<open>title\<close>, \<^verbatim>\<open>url\<close> and \<^verbatim>\<open>snippet\<close>
  that every provider adapter of \<^verbatim>\<open>SearchManager\<close> and \<^verbatim>\<open>_mock_search\<close> build.
\<close>

record SearchResult =
  title :: string
  url :: string
  snippet :: string

record FactCheckResult =
  claim :: string
  verdict :: string
  confidence :: real
  rationale :: string
  sources :: "SearchResult list"

record EvaluationScore =
  accuracy :: real
  coverage :: real
  citations_quality :: real
  clarity_structure :: real
  overall :: real

definition calculate_overall :: "EvaluationScore \<Rightarrow> EvaluationScore" where
  \<comment> \<open>the method assigns \<^verbatim>\<open>self.overall\<close>; the updated object is returned. The sum is
     exact here and rounded to a double in the program\<close>
  "calculate_overall s =
     s\<lparr>overall := 0.45 * accuracy s + 0.30 * coverage s
                    + 0.15 * citations_quality s + 0.10 * clarity_structure s\<rparr>"

section \<open>Scoring\<close>

definition unique_sources :: "FactCheckResult list \<Rightarrow> string set" where
  \<comment> \<open>the set the two nested loops of \<^verbatim>\<open>score_report\<close> fill with every source's URL\<close>
  "unique_sources fact_checks = set (concat (map (\<lambda>fc. map url (sources fc)) fact_checks))"

definition clarity_score :: "string \<Rightarrow> real" where
  \<comment> \<open>\<^verbatim>\<open>clarity_score\<close> after the two \<^verbatim>\<open>if\<close>s, before the final \<^verbatim>\<open>min\<close>\<close>
  "clarity_score draft =
     (let clarity0 = 3.0;
          clarity1 = (if length draft > 500 \<and> length draft < 5000 then clarity0 + 1.0
                      else clarity0)
      in if count_list draft CHR ''#'' > 3 then clarity1 + 1.0 else clarity1)"

definition score_report ::
    "string \<Rightarrow> Criteria \<Rightarrow> FactCheckResult list \<Rightarrow> py_error + EvaluationScore" where
  "score_report draft criteria fact_checks =
     (let supported = length (filter (\<lambda>fc. verdict fc = ''supported'') fact_checks);
          total_claims = (if fact_checks \<noteq> [] then length fact_checks else 1)
      in case py_truediv supported total_claims of
           Inl e \<Rightarrow> Inl e
         | Inr q_acc \<Rightarrow>
            (let coverage_items =
                   (if must_include criteria \<noteq> [] then length (must_include criteria) else 1);
                 covered = length (filter (\<lambda>item. contains (lower item) (lower draft))
                                          (must_include criteria))
             in case py_truediv covered coverage_items of
                  Inl e \<Rightarrow> Inl e
                | Inr q_cov \<Rightarrow>
                    Inr (calculate_overall
                          \<lparr>accuracy = q_acc * 5.0,
                           coverage = q_cov * 5.0,
                           citations_quality =
                             min (real (card (unique_sources fact_checks)) / 2) 5.0,
                           clarity_structure = min (clarity_score draft) 5.0,
                           overall = 0.0\<rparr>)))"

section \<open>The collaborators\<close>

text \<open>
  The language model and the web search are outside the program. A call of the language
  model is modelled by its outcome: \<open>None\<close> when anything in the \<^verbatim>\<open>try\<close> block raises
  (the request, the HTTP status, \<^verbatim>\<open>json.loads\<close>, the construction of the data class),
  and otherwise the parsed answer, typed as the data classes annotate it.
\<close>

definition no_key :: "string option \<Rightarrow> bool" where
  \<comment> \<open>\<^verbatim>\<open>not self.api_key\<close>: the variable is unset or empty\<close>
  "no_key k = (k = None \<or> k = Some [])"

record llm_verdict =
  \<comment> \<open>the entries of the parsed JSON object under the three keys; \<open>None\<close> for a missing key\<close>
  resp_verdict :: "string option"
  resp_confidence :: "real option"
  resp_rationale :: "string option"

section \<open>Fact checking\<close>

fun count_matches :: "string set \<Rightarrow> SearchResult list \<Rightarrow> nat \<Rightarrow> py_error + nat" where
  \<comment> \<open>the loop over \<^verbatim>\<open>sources\<close> of \<^verbatim>\<open>_fact_check_basic\<close>; the division raises when
     \<^verbatim>\<open>claim_words\<close> is empty\<close>
  "count_matches claim_words [] match_count = Inr match_count"
| "count_matches claim_words (source # rest) match_count =
     (let snippet_words = set (split_ws (lower (snippet source)))
      in case py_truediv (card (claim_words \<inter> snippet_words)) (card claim_words) of
           Inl e \<Rightarrow> Inl e
         | Inr overlap \<Rightarrow>
             count_matches claim_words rest
               (if overlap > 0.3 then match_count + 1 else match_count))"

definition fact_check_basic :: "Claim \<Rightarrow> SearchResult list \<Rightarrow> py_error + FactCheckResult" where
  "fact_check_basic cl srcs =
     (let claim_words = set (split_ws (lower (claim_text cl)))
      in case count_matches claim_words srcs 0 of
           Inl e \<Rightarrow> Inl e
         | Inr match_count \<Rightarrow>
             Inr (if match_count \<ge> 2 then
                    \<lparr>claim = claim_text cl, verdict = ''supported'', confidence = 0.7,
                     rationale = ''Found '' @ str_of_nat match_count
                                   @ '' sources with matching content'',
                     sources = srcs\<rparr>
                  else if match_count = 1 then
                    \<lparr>claim = claim_text cl, verdict = ''insufficient'', confidence = 0.5,
                     rationale = ''Limited evidence found'', sources = srcs\<rparr>
                  else
                    \<lparr>claim = claim_text cl, verdict = ''insufficient'', confidence = 0.3,
                     rationale = ''No clear supporting evidence found'', sources = srcs\<rparr>))"

definition fact_check_claim ::
    "string option \<Rightarrow> (string \<Rightarrow> nat \<Rightarrow> SearchResult list)
       \<Rightarrow> (Claim \<Rightarrow> SearchResult list \<Rightarrow> llm_verdict option)
       \<Rightarrow> Claim \<Rightarrow> py_error + FactCheckResult" where
  "fact_check_claim api_key search llm cl =
     (let search_results = search (claim_text cl) 3
      in if no_key api_key then fact_check_basic cl search_results
         else case llm cl search_results of
                None \<Rightarrow> fact_check_basic cl search_results
              | Some result \<Rightarrow>
                  Inr \<lparr>claim = claim_text cl,
                       verdict = (case resp_verdict result of
                                    None \<Rightarrow> ''insufficient'' | Some v \<Rightarrow> v),
                       confidence = (case resp_confidence result of
                                       None \<Rightarrow> 0.5 | Some x \<Rightarrow> x),
                       rationale = (case resp_rationale result of
                                      None \<Rightarrow> ''Unable to determine'' | Some r \<Rightarrow> r),
                       sources = search_results\<rparr>)"

section \<open>Claim extraction\<close>

definition extract_claims_basic :: "string \<Rightarrow> Claim list" where
  "extract_claims_basic draft =
     (let sentences = split_sep CHR ''.'' draft;
          claims = map (\<lambda>sentence. \<lparr>claim_text = sentence,
                                     evidence_needed = ''Web search verification'',
                                     priority = ''medium''\<rparr>)
                       (filter (\<lambda>sentence. length sentence > 20)
                               (map strip (take 20 sentences)))
      in take 10 claims)"

definition extract_claims ::
    "string option \<Rightarrow> (string \<Rightarrow> Claim list option) \<Rightarrow> string \<Rightarrow> Claim list" where
  \<comment> \<open>the model is asked about \<^verbatim>\<open>draft[:3000]\<close>; one \<^verbatim>\<open>Claim\<close> is built per element
     of its array\<close>
  "extract_claims api_key llm draft =
     (if no_key api_key then extract_claims_basic draft
      else case llm (take 3000 draft) of
             None \<Rightarrow> extract_claims_basic draft
           | Some claims_data \<Rightarrow> claims_data)"

section \<open>Criteria extraction\<close>

definition verbs :: "string list" where
  "verbs = [''include'', ''cover'', ''explain'', ''describe'']"

definition match_verb :: "string \<Rightarrow> string \<Rightarrow> (string \<times> nat) option" where
  \<comment> \<open>one alternative of the pattern at the head of \<open>s\<close>: the verb, \<^verbatim>\<open>\s+\<close>, then the group
     \<^verbatim>\<open>(\w+)\<close>; the group and the length of the match\<close>
  "match_verb s v =
     (if startswith v s then
        (let after_verb = drop (length v) s;
             spaces = takeWhile isspace after_verb;
             word = takeWhile is_word_char (drop (length spaces) after_verb)
         in if spaces = [] \<or> word = [] then None
            else Some (word, length v + length spaces + length word))
      else None)"

definition match_here :: "string \<Rightarrow> (string \<times> nat) option" where
  \<comment> \<open>the first alternative that matches, in the pattern's order\<close>
  "match_here s = (case List.map_filter (match_verb s) verbs of
                     [] \<Rightarrow> None
                   | m # _ \<Rightarrow> Some m)"

fun findall_verbs :: "nat \<Rightarrow> bool \<Rightarrow> string \<Rightarrow> string list" where
  \<comment> \<open>\<^verbatim>\<open>re.findall\<close> of the pattern, left to right without overlap. \<open>skip\<close> counts the
     characters of the last match still to pass; \<open>prev\<close> says that the character before
     is a word character, where \<^verbatim>\<open>\b\<close> fails\<close>
  "findall_verbs skip prev [] = []"
| "findall_verbs skip prev (c # cs) =
     (if skip > 0 then findall_verbs (skip - 1) (is_word_char c) cs
      else if prev then findall_verbs 0 (is_word_char c) cs
      else case match_here (c # cs) of
             None \<Rightarrow> findall_verbs 0 (is_word_char c) cs
           | Some (word, n) \<Rightarrow> word # findall_verbs (n - 1) (is_word_char c) cs)"

definition extract_criteria_basic :: "string \<Rightarrow> Criteria" where
  "extract_criteria_basic user_query =
     (let query_lower = lower user_query;
          goals0 = [];
          goals1 = (if contains ''compare'' query_lower
                    then goals0 @ [''Provide comprehensive comparison''] else goals0);
          goals2 = (if contains ''best'' query_lower
                    then goals1 @ [''Identify best options with justification''] else goals1);
          goals3 = (if contains ''how'' query_lower
                    then goals2 @ [''Provide actionable instructions''] else goals2);
          found = findall_verbs 0 False query_lower
      in \<lparr>goals = (if goals3 \<noteq> [] then goals3
                   else [''Answer the user'' @ [CHR 0x27] @ ''s question comprehensively'']),
          constraints = [''Be factual and accurate'', ''Use credible sources''],
          must_include = found,
          nice_to_have = [''Recent information (2023-2024)'', ''Multiple perspectives''],
          disallowed = [''Speculation without evidence'', ''Outdated information'']\<rparr>)"

definition extract_criteria ::
    "string option \<Rightarrow> (string \<Rightarrow> Criteria option) \<Rightarrow> string \<Rightarrow> Criteria" where
  "extract_criteria api_key llm user_query =
     (if no_key api_key then extract_criteria_basic user_query
      else case llm user_query of
             None \<Rightarrow> extract_criteria_basic user_query
           | Some criteria \<Rightarrow> criteria)"

section \<open>Revision\<close>

definition newline :: char where
  "newline = CHR 0x0A"

definition warning :: "FactCheckResult \<Rightarrow> string" where
  \<comment> \<open>the note appended for a contradicted claim, with \<^verbatim>\<open>fc.claim[:50]\<close>\<close>
  "warning fc = [newline] @ ''**Note**: The claim '' @ [CHR 0x27] @ take 50 (claim fc)
                  @ ''...'' @ [CHR 0x27] @ '' may need verification.'' @ [newline]"

definition source_line :: "string \<Rightarrow> nat \<times> FactCheckResult \<Rightarrow> string" where
  \<comment> \<open>the body of the loop over \<^verbatim>\<open>enumerate(fact_checks[:5], 1)\<close>\<close>
  "source_line fixed p =
     (case sources (snd p) of
        [] \<Rightarrow> fixed
      | s # _ \<Rightarrow> fixed @ ''['' @ str_of_nat (fst p) @ ''] '' @ url s @ [newline])"

definition auto_fix_basic :: "string \<Rightarrow> FactCheckResult list \<Rightarrow> string" where
  "auto_fix_basic draft fact_checks =
     (let fixed = foldl (\<lambda>fixed fc. if verdict fc = ''contradicted'' then fixed @ warning fc
                                     else fixed)
                        draft fact_checks
      in if contains ''## Sources'' fixed \<or> contains ''## References'' fixed then fixed
         else foldl source_line (fixed @ [newline, newline] @ ''## Sources'' @ [newline])
                (zip [1 ..< 6] (take 5 fact_checks)))"

definition auto_fix_draft ::
    "string option \<Rightarrow> (string \<Rightarrow> FactCheckResult list \<Rightarrow> Criteria \<Rightarrow> string option)
       \<Rightarrow> string \<Rightarrow> Criteria \<Rightarrow> FactCheckResult list \<Rightarrow> string" where
  \<comment> \<open>the model is shown \<^verbatim>\<open>draft[:2000]\<close>, the fact checks that are not supported and the
     criteria; its text is returned as it is\<close>
  "auto_fix_draft api_key llm draft criteria fact_checks =
     (if no_key api_key then auto_fix_basic draft fact_checks
      else (let issues = filter (\<lambda>fc. verdict fc \<noteq> ''supported'') fact_checks
            in case llm (take 2000 draft) issues criteria of
                 None \<Rightarrow> auto_fix_basic draft fact_checks
               | Some text \<Rightarrow> text))"

section \<open>The pipeline\<close>

record services =
  \<comment> \<open>what \<^verbatim>\<open>ReportEvaluator\<close> holds and calls: the key, the search and the four
     language-model calls\<close>
  api_key :: "string option"
  search :: "string \<Rightarrow> nat \<Rightarrow> SearchResult list"
  llm_criteria :: "string \<Rightarrow> Criteria option"
  llm_claims :: "string \<Rightarrow> Claim list option"
  llm_fact_check :: "Claim \<Rightarrow> SearchResult list \<Rightarrow> llm_verdict option"
  llm_fix :: "string \<Rightarrow> FactCheckResult list \<Rightarrow> Criteria \<Rightarrow> string option"

datatype progress =
  \<comment> \<open>the lines \<^verbatim>\<open>generate_report\<close> prints, in the order of the source\<close>
    Starting | ExtractingCriteria | ExtractingClaims | FoundClaims nat | FactChecking
  | CheckingClaim nat nat | CalculatingScores | AutoFixing | GeneratingReports

record json_report =
  \<comment> \<open>the dictionary \<^verbatim>\<open>_save_json_report\<close> writes to \<^verbatim>\<open>report.json\<close>, without its
     timestamp; \<open>None\<close> is JSON's \<^verbatim>\<open>null\<close>\<close>
  json_query :: string
  json_score :: EvaluationScore
  json_criteria :: Criteria
  json_fact_checks :: "FactCheckResult list"
  original_draft_length :: nat
  fixed_draft_length :: "nat option"
  auto_fixed :: bool

definition save_json_report ::
    "string \<Rightarrow> string \<Rightarrow> string \<Rightarrow> Criteria \<Rightarrow> FactCheckResult list \<Rightarrow> EvaluationScore
       \<Rightarrow> json_report" where
  "save_json_report query original fixed criteria fact_checks score =
     \<lparr>json_query = query,
      json_score = score,
      json_criteria = criteria,
      json_fact_checks = fact_checks,
      original_draft_length = length original,
      fixed_draft_length = (if fixed \<noteq> original then Some (length fixed) else None),
      auto_fixed = (overall score < 3.5)\<rparr>"

fun check_claims ::
    "services \<Rightarrow> nat \<Rightarrow> nat \<Rightarrow> Claim list \<Rightarrow> progress list \<Rightarrow> FactCheckResult list
       \<Rightarrow> py_error + progress list \<times> FactCheckResult list" where
  \<comment> \<open>the loop over \<^verbatim>\<open>enumerate(claims[:10], 1)\<close>: \<open>i\<close> is the index, \<open>shown\<close> the
     \<^verbatim>\<open>min(len(claims), 10)\<close> of the message; an exception ends the loop\<close>
  "check_claims sv shown i [] lines fact_checks = Inr (lines, fact_checks)"
| "check_claims sv shown i (cl # rest) lines fact_checks =
     (case fact_check_claim (api_key sv) (search sv) (llm_fact_check sv) cl of
        Inl e \<Rightarrow> Inl e
      | Inr fact_check \<Rightarrow>
          check_claims sv shown (i + 1) rest (lines @ [CheckingClaim i shown])
            (fact_checks @ [fact_check]))"

record report =
  \<comment> \<open>what a run of \<^verbatim>\<open>generate_report\<close> leaves: the returned values, the JSON file and
     the progress lines\<close>
  result_score :: EvaluationScore
  result_criteria :: Criteria
  result_fact_checks :: "FactCheckResult list"
  fixed_draft :: string
  json_file :: json_report
  printed :: "progress list"

definition generate_report :: "services \<Rightarrow> string \<Rightarrow> string \<Rightarrow> py_error + report" where
  "generate_report sv user_query draft =
     (let log1 = [Starting, ExtractingCriteria];
          criteria = extract_criteria (api_key sv) (llm_criteria sv) user_query;
          claims = extract_claims (api_key sv) (llm_claims sv) draft;
          log2 = log1 @ [ExtractingClaims, FoundClaims (length claims), FactChecking]
      in case check_claims sv (min (length claims) 10) 1 (take 10 claims) log2 [] of
           Inl e \<Rightarrow> Inl e
         | Inr (log3, fact_checks) \<Rightarrow>
             (case score_report draft criteria fact_checks of
                Inl e \<Rightarrow> Inl e
              | Inr score \<Rightarrow>
                  (let revise = (overall score < 3.5);
                       log5 = (if revise then log3 @ [CalculatingScores, AutoFixing]
                               else log3 @ [CalculatingScores]);
                       fixed = (if revise
                                then auto_fix_draft (api_key sv) (llm_fix sv) draft criteria
                                       fact_checks
                                else draft)
                   in Inr \<lparr>result_score = score,
                           result_criteria = criteria,
                           result_fact_checks = fact_checks,
                           fixed_draft = fixed,
                           json_file = save_json_report user_query draft fixed criteria
                                         fact_checks score,
                           printed = log5 @ [GeneratingReports]\<rparr>)))"

section \<open>Ignoring case\<close>



section \<open>Concrete runs\<close>

text \<open>Inputs at which the results below are evaluated.\<close>

definition test_key :: "string option" where
  "test_key = Some ''sk-test''"

definition boiling_claim :: Claim where
  "boiling_claim = \<lparr>claim_text = ''Water boils at 100 degrees'',
                     evidence_needed = ''Physics reference'', priority = ''high''\<rparr>"

definition no_results :: "string \<Rightarrow> nat \<Rightarrow> SearchResult list" where
  "no_results q n = []"

definition overconfident_llm :: "Claim \<Rightarrow> SearchResult list \<Rightarrow> llm_verdict option" where
  \<comment> \<open>the answer \<^verbatim>\<open>{"verdict": "supported", "confidence": 7}\<close>\<close>
  "overconfident_llm cl srcs =
     Some \<lparr>resp_verdict = Some ''supported'', resp_confidence = Some 7,
           resp_rationale = None\<rparr>"

definition overconfident_result :: FactCheckResult where
  "overconfident_result =
     \<lparr>claim = ''Water boils at 100 degrees'', verdict = ''supported'', confidence = 7,
      rationale = ''Unable to determine'', sources = []\<rparr>"


definition failing_llm :: "string \<Rightarrow> Claim list option" where
  "failing_llm d = None"

definition two_sentences :: string where
  "two_sentences = ''The sky is blue and the sea is green. Short one.''"

definition empty_claim :: Claim where
  "empty_claim = \<lparr>claim_text = [], evidence_needed = ''Web search verification'',
                   priority = ''medium''\<rparr>"

definition blank_claim :: Claim where
  \<comment> \<open>a claim of whitespace only: a no-break space, a next line and a space\<close>
  "blank_claim = \<lparr>claim_text = [CHR 0xA0, CHR 0x85, CHR 0x20], evidence_needed = [],
                   priority = []\<rparr>"

definition one_source :: "SearchResult list" where
  "one_source = [\<lparr>title = ''Example Result 1'', url = ''https://example.com/1'',
                  snippet = ''This is a relevant result about ''\<rparr>]"

definition plain_draft :: string where
  \<comment> \<open>200 characters, no heading marker\<close>
  "plain_draft = replicate 200 CHR ''a''"

definition sectioned_draft :: string where
  \<comment> \<open>1000 characters, four of them heading markers\<close>
  "sectioned_draft = replicate 4 CHR ''#'' @ replicate 996 CHR ''a''"

definition no_criteria :: Criteria where
  "no_criteria = \<lparr>goals = [], constraints = [], must_include = [], nice_to_have = [],
                   disallowed = []\<rparr>"




definition demo_search :: "string \<Rightarrow> nat \<Rightarrow> SearchResult list" where
  \<comment> \<open>three results per query, with addresses that differ from query to query\<close>
  "demo_search q n =
     [\<lparr>title = ''A'', url = q @ ''/1'', snippet = q\<rparr>,
      \<lparr>title = ''B'', url = q @ ''/2'', snippet = q\<rparr>,
      \<lparr>title = ''C'', url = q @ ''/3'', snippet = q\<rparr>]"

definition demo_criteria :: Criteria where
  "demo_criteria = \<lparr>goals = [''Explain''], constraints = [],
                     must_include = [''alpha'', ''beta'', ''gamma''], nice_to_have = [],
                     disallowed = []\<rparr>"

definition demo_claims :: "Claim list" where
  "demo_claims = [\<lparr>claim_text = ''c1'', evidence_needed = ''e'', priority = ''high''\<rparr>,
                  \<lparr>claim_text = ''c2'', evidence_needed = ''e'', priority = ''low''\<rparr>]"

definition demo_services :: services where
  "demo_services =
     \<lparr>api_key = Some ''sk-test'',
      search = demo_search,
      llm_criteria = (\<lambda>q. Some demo_criteria),
      llm_claims = (\<lambda>d. Some demo_claims),
      llm_fact_check = (\<lambda>cl srcs. Some \<lparr>resp_verdict = Some ''supported'',
                                           resp_confidence = Some 0.9,
                                           resp_rationale = Some ''Matches''\<rparr>),
      llm_fix = (\<lambda>d issues criteria. None)\<rparr>"


definition offline_services :: services where
  \<comment> \<open>no key and no search results: every step takes its fallback\<close>
  "offline_services =
     \<lparr>api_key = None,
      search = no_results,
      llm_criteria = (\<lambda>q. None),
      llm_claims = failing_llm,
      llm_fact_check = (\<lambda>cl srcs. None),
      llm_fix = (\<lambda>d issues criteria. None)\<rparr>"

section \<open>Strings\<close>



text \<open>The table of \<open>lower_char\<close>: capitals on the left, small letters on the right.\<close>

lemma length_tables: "length uppers = length lowers"
  by (simp add: uppers_def lowers_def latin_uppers_def latin_lowers_def)

lemma distinct_uppers: "distinct uppers"
  by (simp add: uppers_def latin_uppers_def)


lemma space_not_upper: "isspace c \<Longrightarrow> c \<notin> set uppers"
  by (auto simp: isspace_def uppers_def latin_uppers_def)

lemma space_not_lower: "isspace c \<Longrightarrow> c \<notin> set lowers"
  by (auto simp: isspace_def lowers_def latin_lowers_def)


lemma in_case_pairs_iff: "(c, l) \<in> set case_pairs \<longleftrightarrow> map_of case_pairs c = Some l"
proof -
  have "distinct (map fst case_pairs)"
    by (simp add: case_pairs_def length_tables distinct_uppers)
  then show ?thesis by simp
qed

lemma case_pairs_sides:
  assumes "(c, l) \<in> set case_pairs"
  shows "c \<in> set uppers" and "l \<in> set lowers"
  using assms unfolding case_pairs_def
  by (auto dest: set_zip_leftD set_zip_rightD)


lemma lower_char_cases:
  obtains (changed) l where "(c, l) \<in> set case_pairs" and "lower_char c = l"
        | (kept) "c \<notin> set uppers" and "lower_char c = c"
proof (cases "map_of case_pairs c")
  case None
  then have "c \<notin> fst ` set case_pairs" by (simp add: map_of_eq_None_iff)
  then have "c \<notin> set (map fst case_pairs)" by simp
  then have "c \<notin> set uppers" by (simp add: case_pairs_def length_tables)
  moreover have "lower_char c = c" by (simp add: lower_char_def None)
  ultimately show ?thesis by (rule kept)
next
  case (Some l)
  then have "(c, l) \<in> set case_pairs" by (simp add: in_case_pairs_iff)
  moreover have "lower_char c = l" by (simp add: lower_char_def Some)
  ultimately show ?thesis by (rule changed)
qed

lemma lower_char_kept: "c \<notin> set uppers \<Longrightarrow> lower_char c = c"
  by (cases c rule: lower_char_cases) (auto dest: case_pairs_sides)

lemma lower_char_examples:
  "lower_char CHR ''C'' = CHR ''c''"
  "lower_char (CHR 0xC0) = CHR 0xE0"
  by (simp_all add: lower_char_def case_pairs_def uppers_def lowers_def latin_uppers_def
        latin_lowers_def)

lemmas lower_eval = lower_def lower_char_examples lower_char_kept uppers_def latin_uppers_def




text \<open>Lower-casing neither makes nor removes whitespace, so it keeps the word count.\<close>

lemma isspace_lower_char: "isspace (lower_char c) = isspace c"
proof (cases c rule: lower_char_cases)
  case (changed l)
  then have "c \<in> set uppers" and "l \<in> set lowers"
    using case_pairs_sides by blast+
  then have "\<not> isspace c" and "\<not> isspace l"
    using space_not_upper space_not_lower by blast+
  with changed show ?thesis by simp
next
  case kept
  then show ?thesis by simp
qed

lemma split_ws_from_empty:
  "split_ws_from cur s = [] \<longleftrightarrow> cur = [] \<and> (\<forall>c \<in> set s. isspace c)"
  by (induction s arbitrary: cur) auto

lemma split_ws_empty: "split_ws s = [] \<longleftrightarrow> (\<forall>c \<in> set s. isspace c)"
  by (simp add: split_ws_def split_ws_from_empty)

lemma split_ws_lower_empty: "split_ws (lower s) = [] \<longleftrightarrow> split_ws s = []"
  by (simp add: split_ws_empty lower_def isspace_lower_char)

lemma count_list_replicate: "count_list (replicate n x) y = (if x = y then n else 0)"
  by (induction n) auto

lemma count_list_append: "count_list (xs @ ys) y = count_list xs y + count_list ys y"
  by (induction xs) simp_all

section \<open>The scores\<close>

text \<open>
  Both divisors of \<open>score_report\<close> are at least 1, so it always returns, and its
  result is the record below.
\<close>

lemma score_report_eq:
  "score_report draft criteria fact_checks =
     Inr (calculate_overall
           \<lparr>accuracy = real (length (filter (\<lambda>fc. verdict fc = ''supported'') fact_checks))
                         / real (max 1 (length fact_checks)) * 5,
            coverage = real (length (filter (\<lambda>item. contains (lower item) (lower draft))
                                          (must_include criteria)))
                         / real (max 1 (length (must_include criteria))) * 5,
            citations_quality = min (real (card (unique_sources fact_checks)) / 2) 5,
            clarity_structure = min (clarity_score draft) 5,
            overall = 0\<rparr>)"
proof -
  have a: "(if fact_checks \<noteq> [] then length fact_checks else 1) = max 1 (length fact_checks)"
    by (cases fact_checks) simp_all
  have b: "(if must_include criteria \<noteq> [] then length (must_include criteria) else 1)
             = max 1 (length (must_include criteria))"
    by (cases "must_include criteria") simp_all
  show ?thesis
    unfolding score_report_def Let_def a b py_truediv_def by simp
qed


lemma clarity_cases:
  "clarity_score draft =
     3 + (if 500 < length draft \<and> length draft < 5000 then 1 else 0)
       + (if 3 < count_list draft CHR ''#'' then 1 else 0)"
  by (simp add: clarity_score_def Let_def)

text \<open>
  C1. For every draft, criteria and list of fact checks, \<open>score_report\<close> returns a score
  whose \<open>overall\<close> is 0.45 * accuracy + 0.30 * coverage + 0.15 * citations_quality
  + 0.10 * clarity_structure of that same score: equal, hence within the tolerance 1e-9.
\<close>

theorem overall_is_weighted_sum:
  "\<exists>s. score_report draft criteria fact_checks = Inr s \<and>
       overall s = 0.45 * accuracy s + 0.30 * coverage s
                     + 0.15 * citations_quality s + 0.10 * clarity_structure s \<and>
       \<bar>overall s - (0.45 * accuracy s + 0.30 * coverage s
                     + 0.15 * citations_quality s + 0.10 * clarity_structure s)\<bar> \<le> 1 / 10 ^ 9"
  by (simp add: score_report_eq calculate_overall_def)



text \<open>
  C6. The \<open>clarity_structure\<close> of the score is 3, plus 1 when the draft has more than 500
  and fewer than 5000 characters, plus 1 when the draft holds more than three \<open>#\<close>
  characters (the heading markers the code counts), capped at 5; it lies between 3
  and 5. A draft of 200 characters without a marker scores 3, one of 1000 characters
  with four markers scores 5.
\<close>

theorem clarity_structure_formula:
  "\<exists>s. score_report draft criteria fact_checks = Inr s \<and>
       clarity_structure s =
         min (3 + (if 500 < length draft \<and> length draft < 5000 then 1 else 0)
                + (if 3 < count_list draft CHR ''#'' then 1 else 0)) 5 \<and>
       3 \<le> clarity_structure s \<and> clarity_structure s \<le> 5 \<and>
       (length draft = 200 \<and> count_list draft CHR ''#'' = 0 \<longrightarrow> clarity_structure s = 3) \<and>
       (length draft = 1000 \<and> count_list draft CHR ''#'' = 4 \<longrightarrow> clarity_structure s = 5)"
  by (simp add: score_report_eq calculate_overall_def clarity_cases)

theorem clarity_structure_formula_witness:
  "(length plain_draft = 200 \<and> count_list plain_draft CHR ''#'' = 0) \<and>
   (length sectioned_draft = 1000 \<and> count_list sectioned_draft CHR ''#'' = 4) \<and>
   (\<exists>s. score_report plain_draft no_criteria [] = Inr s \<and> clarity_structure s = 3) \<and>
   (\<exists>s. score_report sectioned_draft no_criteria [] = Inr s \<and> clarity_structure s = 5)"
proof -
  have p: "length plain_draft = 200 \<and> count_list plain_draft CHR ''#'' = 0"
    by (simp add: plain_draft_def count_list_replicate)
  have q: "length sectioned_draft = 1000 \<and> count_list sectioned_draft CHR ''#'' = 4"
    by (simp add: sectioned_draft_def count_list_replicate count_list_append)
  from clarity_structure_formula [of plain_draft no_criteria "[]"] p
  have a: "\<exists>s. score_report plain_draft no_criteria [] = Inr s \<and> clarity_structure s = 3"
    by auto
  from clarity_structure_formula [of sectioned_draft no_criteria "[]"] q
  have b: "\<exists>s. score_report sectioned_draft no_criteria [] = Inr s \<and> clarity_structure s = 5"
    by auto
  from p q a b show ?thesis by blast
qed

section \<open>The heuristic fact checker\<close>

text \<open>
  With a divisor that is not zero the loop counts the sources whose overlap ratio
  exceeds 0.3; with a zero divisor it raises at the first source.
\<close>

lemma count_matches_defined:
  assumes "card cw \<noteq> 0"
  shows "count_matches cw srcs k =
           Inr (k + length (filter (\<lambda>source.
                  real (card (cw \<inter> set (split_ws (lower (snippet source))))) / real (card cw)
                    > 0.3) srcs))"
  using assms by (induction srcs arbitrary: k) (simp_all add: py_truediv_def Let_def)

lemma count_matches_raises:
  assumes "card cw = 0" and "srcs \<noteq> []"
  shows "count_matches cw srcs k = Inl ZeroDivisionError"
  using assms by (cases srcs) (simp_all add: py_truediv_def Let_def)

lemma claim_words_card:
  "card (set (split_ws (lower (claim_text cl)))) = 0 \<longleftrightarrow> split_ws (claim_text cl) = []"
  by (simp add: split_ws_lower_empty)

lemma fact_check_basic_returns:
  assumes "split_ws (claim_text cl) \<noteq> []"
  shows "\<exists>r. fact_check_basic cl srcs = Inr r"
proof -
  from assms have "card (set (split_ws (lower (claim_text cl)))) \<noteq> 0"
    by (simp only: claim_words_card not_False_eq_True)
  then show ?thesis
    by (simp add: fact_check_basic_def Let_def count_matches_defined)
qed

lemma fact_check_basic_raises:
  assumes "split_ws (claim_text cl) = []" and "srcs \<noteq> []"
  shows "fact_check_basic cl srcs = Inl ZeroDivisionError"
proof -
  from assms(1) have "card (set (split_ws (lower (claim_text cl)))) = 0"
    by (simp only: claim_words_card)
  from count_matches_raises [OF this assms(2)] show ?thesis
    by (simp add: fact_check_basic_def Let_def)
qed

lemma fact_check_basic_verdicts:
  assumes "fact_check_basic cl srcs = Inr r"
  shows "(verdict r = ''supported'' \<and> confidence r = 0.7) \<or>
         (verdict r = ''insufficient'' \<and> confidence r = 0.5) \<or>
         (verdict r = ''insufficient'' \<and> confidence r = 0.3)"
  using assms
  by (auto simp: fact_check_basic_def Let_def split: sum.splits if_splits)

lemma fact_check_basic_confidence:
  assumes "fact_check_basic cl srcs = Inr r"
  shows "0 \<le> confidence r \<and> confidence r \<le> 1"
  using fact_check_basic_verdicts [OF assms] by auto

text \<open>
  C10. For a claim whose text holds at least one word, and any list of sources, the
  divisor of the overlap ratio (the number of distinct lower-cased words of the claim)
  is not zero and \<open>fact_check_basic\<close> returns a result. The precondition is needed: for a
  claim without a word the divisor is zero, and with at least one source the call
  raises \<open>ZeroDivisionError\<close>.
\<close>

theorem fact_check_basic_total:
  "(split_ws (claim_text cl) \<noteq> [] \<longrightarrow>
      card (set (split_ws (lower (claim_text cl)))) \<noteq> 0 \<and>
      (\<exists>r. fact_check_basic cl srcs = Inr r)) \<and>
   (split_ws (claim_text cl) = [] \<and> srcs \<noteq> [] \<longrightarrow>
      card (set (split_ws (lower (claim_text cl)))) = 0 \<and>
      fact_check_basic cl srcs = Inl ZeroDivisionError)"
  using fact_check_basic_returns [of cl srcs] fact_check_basic_raises [of cl srcs]
  by (simp add: claim_words_card)

theorem fact_check_basic_total_witness:
  "split_ws (claim_text boiling_claim) \<noteq> [] \<and>
   card (set (split_ws (lower (claim_text boiling_claim)))) \<noteq> 0 \<and>
   (\<exists>r. fact_check_basic boiling_claim one_source = Inr r) \<and>
   split_ws (claim_text blank_claim) = [] \<and> one_source \<noteq> [] \<and>
   fact_check_basic blank_claim one_source = Inl ZeroDivisionError"
proof -
  have a: "split_ws (claim_text boiling_claim) \<noteq> []"
    by (simp add: boiling_claim_def split_ws_empty isspace_def)
  have b: "split_ws (claim_text blank_claim) = []"
    by (simp add: blank_claim_def split_ws_empty isspace_def)
  have c: "one_source \<noteq> []" by (simp add: one_source_def)
  from fact_check_basic_total [of boiling_claim one_source] a
       fact_check_basic_total [of blank_claim one_source] b c
  show ?thesis by blast
qed

text \<open>
  The verdict policy, for a claim that holds a word: "supported" with confidence 0.7 for
  at least two matching sources, "insufficient" with 0.5 for exactly one and with 0.3
  for none.
\<close>

lemma fact_check_basic_policy:
  assumes "split_ws (claim_text cl) \<noteq> []"
  shows "\<exists>r. fact_check_basic cl srcs = Inr r \<and>
           (let claim_words = set (split_ws (lower (claim_text cl)));
                matching = filter (\<lambda>source.
                    real (card (claim_words \<inter> set (split_ws (lower (snippet source)))))
                      / real (card claim_words) > 0.3) srcs
            in (if 2 \<le> length matching
                then verdict r = ''supported'' \<and> confidence r = 0.7
                else if length matching = 1
                then verdict r = ''insufficient'' \<and> confidence r = 0.5
                else verdict r = ''insufficient'' \<and> confidence r = 0.3))"
proof -
  from assms have "card (set (split_ws (lower (claim_text cl)))) \<noteq> 0"
    by (simp only: claim_words_card not_False_eq_True)
  then show ?thesis
    by (simp add: fact_check_basic_def Let_def count_matches_defined)
qed

text \<open>
  C5. The claim promises the verdict "insufficient" with confidence 0.3 whenever no
  source matches, for every claim. For the claim with an empty text and one source the
  call raises \<open>ZeroDivisionError\<close> instead of returning that verdict.
\<close>

theorem fact_check_basic_empty_claim:
  "fact_check_basic empty_claim one_source = Inl ZeroDivisionError"
  by (simp add: fact_check_basic_def empty_claim_def one_source_def Let_def lower_def
        split_ws_def py_truediv_def)

section \<open>Fact checking with the language model\<close>

text \<open>
  C3, as stated: every result of \<open>fact_check_claim\<close> has a confidence in [0,1]. It fails
  for the answer \<^verbatim>\<open>{"verdict": "supported", "confidence": 7}\<close>: the confidence of the
  result is 7.
\<close>

theorem confidence_unclamped_counterexample:
  "fact_check_claim test_key no_results overconfident_llm boiling_claim
     = Inr overconfident_result \<and>
   \<not> (0 \<le> confidence overconfident_result \<and> confidence overconfident_result \<le> 1)"
  by (simp add: fact_check_claim_def test_key_def no_key_def no_results_def
        overconfident_llm_def boiling_claim_def overconfident_result_def Let_def)

text \<open>
  C3, amended. Every result of the heuristic path has a confidence in [0,1], also when
  \<open>fact_check_claim\<close> reaches it without a key or after a failed call. With a key and
  an answer of the language model, the confidence of the result is the answer's
  \<^verbatim>\<open>confidence\<close> entry as it is (0.5 when the entry is missing), without clamping.
\<close>

theorem confidence_range:
  "(fact_check_basic cl srcs = Inr r \<longrightarrow> 0 \<le> confidence r \<and> confidence r \<le> 1) \<and>
   ((no_key key \<or> llm cl (lookup (claim_text cl) 3) = None) \<and>
      fact_check_claim key lookup llm cl = Inr r
      \<longrightarrow> 0 \<le> confidence r \<and> confidence r \<le> 1) \<and>
   (\<not> no_key key \<and> llm cl (lookup (claim_text cl) 3) = Some resp
      \<longrightarrow> (\<exists>r'. fact_check_claim key lookup llm cl = Inr r' \<and>
                confidence r' = (case resp_confidence resp of None \<Rightarrow> 0.5 | Some x \<Rightarrow> x)))"
proof (intro conjI impI)
  assume "fact_check_basic cl srcs = Inr r"
  then show "0 \<le> confidence r" and "confidence r \<le> 1"
    using fact_check_basic_confidence by blast+
next
  assume a: "(no_key key \<or> llm cl (lookup (claim_text cl) 3) = None) \<and>
             fact_check_claim key lookup llm cl = Inr r"
  then have "fact_check_basic cl (lookup (claim_text cl) 3) = Inr r"
    by (cases "no_key key") (auto simp: fact_check_claim_def Let_def)
  then show "0 \<le> confidence r" and "confidence r \<le> 1"
    using fact_check_basic_confidence by blast+
next
  assume "\<not> no_key key \<and> llm cl (lookup (claim_text cl) 3) = Some resp"
  then show "\<exists>r'. fact_check_claim key lookup llm cl = Inr r' \<and>
                confidence r' = (case resp_confidence resp of None \<Rightarrow> 0.5 | Some x \<Rightarrow> x)"
    by (auto simp: fact_check_claim_def Let_def split: if_splits)
qed

theorem confidence_range_witness:
  "(\<exists>r. fact_check_basic boiling_claim one_source = Inr r \<and>
        0 \<le> confidence r \<and> confidence r \<le> 1) \<and>
   (\<exists>r. fact_check_claim None no_results overconfident_llm boiling_claim = Inr r \<and>
        0 \<le> confidence r \<and> confidence r \<le> 1) \<and>
   (\<exists>r. fact_check_claim test_key no_results overconfident_llm boiling_claim = Inr r \<and>
        confidence r = 7)"
proof -
  have w: "split_ws (claim_text boiling_claim) \<noteq> []"
    by (simp add: boiling_claim_def split_ws_empty isspace_def)
  obtain r1 where r1: "fact_check_basic boiling_claim one_source = Inr r1"
    using fact_check_basic_returns [OF w] by blast
  have "fact_check_claim None no_results overconfident_llm boiling_claim
          = fact_check_basic boiling_claim []"
    by (simp add: fact_check_claim_def no_key_def no_results_def)
  moreover obtain r2 where "fact_check_basic boiling_claim [] = Inr r2"
    using fact_check_basic_returns [OF w] by blast
  ultimately have r2: "fact_check_claim None no_results overconfident_llm boiling_claim = Inr r2"
    by simp
  have k: "no_key None" by (simp add: no_key_def)
  have s: "\<not> no_key test_key \<and>
           overconfident_llm boiling_claim (no_results (claim_text boiling_claim) 3)
           = Some \<lparr>resp_verdict = Some ''supported'', resp_confidence = Some 7,
                   resp_rationale = None\<rparr>"
    by (simp add: no_key_def test_key_def overconfident_llm_def)
  from confidence_range [of boiling_claim one_source r1 None overconfident_llm no_results] r1
  have a: "0 \<le> confidence r1 \<and> confidence r1 \<le> 1" by blast
  from confidence_range [of boiling_claim one_source r2 None overconfident_llm no_results] r2 k
  have b: "0 \<le> confidence r2 \<and> confidence r2 \<le> 1" by blast
  note confidence_range [of boiling_claim one_source r1 test_key overconfident_llm no_results,
         THEN conjunct2, THEN conjunct2, THEN mp, OF s]
  then have c: "\<exists>r. fact_check_claim test_key no_results overconfident_llm boiling_claim = Inr r \<and>
               confidence r = 7"
    by simp
  from r1 a r2 b c show ?thesis by blast
qed

section \<open>Claim extraction\<close>

text \<open>
  C8. The fallback extractor returns at most 10 claims; the text of each is a sentence
  of the draft after trimming, longer than 20 characters; each has the priority
  "medium" and the evidence "Web search verification".
\<close>

theorem extract_claims_basic_bounds:
  "length (extract_claims_basic draft) \<le> 10 \<and>
   (\<forall>c \<in> set (extract_claims_basic draft).
      20 < length (claim_text c) \<and>
      (\<exists>sentence \<in> set (take 20 (split_sep CHR ''.'' draft)).
         claim_text c = strip sentence) \<and>
      priority c = ''medium'' \<and>
      evidence_needed c = ''Web search verification'')"
proof (intro conjI ballI)
  show "length (extract_claims_basic draft) \<le> 10"
    by (simp add: extract_claims_basic_def Let_def)
next
  fix c assume "c \<in> set (extract_claims_basic draft)"
  then have "c \<in> set (map (\<lambda>sentence. \<lparr>claim_text = sentence,
                                     evidence_needed = ''Web search verification'',
                                     priority = ''medium''\<rparr>)
                       (filter (\<lambda>sentence. length sentence > 20)
                               (map strip (take 20 (split_sep CHR ''.'' draft)))))"
    unfolding extract_claims_basic_def Let_def by (rule in_set_takeD)
  then obtain t where t: "t \<in> set (take 20 (split_sep CHR ''.'' draft))"
      "20 < length (strip t)"
      "c = \<lparr>claim_text = strip t, evidence_needed = ''Web search verification'',
             priority = ''medium''\<rparr>"
    by auto
  from t show "20 < length (claim_text c)" by simp
  from t show "\<exists>sentence \<in> set (take 20 (split_sep CHR ''.'' draft)).
                 claim_text c = strip sentence" by auto
  from t show "priority c = ''medium''" by simp
  from t show "evidence_needed c = ''Web search verification''" by simp
qed

lemma two_sentences_claims:
  "extract_claims_basic two_sentences =
     [\<lparr>claim_text = ''The sky is blue and the sea is green'',
       evidence_needed = ''Web search verification'', priority = ''medium''\<rparr>]"
  by (simp add: extract_claims_basic_def two_sentences_def split_sep_def strip_def
        isspace_def Let_def)

theorem extract_claims_basic_bounds_witness:
  "extract_claims_basic two_sentences \<noteq> [] \<and>
   length (extract_claims_basic two_sentences) \<le> 10 \<and>
   20 < length (claim_text (hd (extract_claims_basic two_sentences))) \<and>
   priority (hd (extract_claims_basic two_sentences)) = ''medium'' \<and>
   evidence_needed (hd (extract_claims_basic two_sentences)) = ''Web search verification''"
proof -
  have ne: "extract_claims_basic two_sentences \<noteq> []"
    by (simp add: two_sentences_claims)
  then have "hd (extract_claims_basic two_sentences) \<in> set (extract_claims_basic two_sentences)"
    by (rule hd_in_set)
  with extract_claims_basic_bounds [of two_sentences] ne show ?thesis by blast
qed

text \<open>What the loop over the claims and a returning run of the pipeline leave.\<close>

lemma check_claims_result:
  assumes "check_claims sv shown i cls lines acc = Inr (lines', fcs)"
  shows "length fcs = length acc + length cls"
    and "AutoFixing \<in> set lines' \<longleftrightarrow> AutoFixing \<in> set lines"
  using assms
  by (induction cls arbitrary: i lines acc) (auto split: sum.splits)

lemma generate_report_cases:
  assumes "generate_report sv user_query draft = Inr out"
  obtains lines fcs score where
    "check_claims sv (min (length (extract_claims (api_key sv) (llm_claims sv) draft)) 10) 1
       (take 10 (extract_claims (api_key sv) (llm_claims sv) draft))
       [Starting, ExtractingCriteria, ExtractingClaims,
        FoundClaims (length (extract_claims (api_key sv) (llm_claims sv) draft)), FactChecking]
       [] = Inr (lines, fcs)"
    "score_report draft (extract_criteria (api_key sv) (llm_criteria sv) user_query) fcs
       = Inr score"
    "out = \<lparr>result_score = score,
            result_criteria = extract_criteria (api_key sv) (llm_criteria sv) user_query,
            result_fact_checks = fcs,
            fixed_draft = (if overall score < 3.5
                           then auto_fix_draft (api_key sv) (llm_fix sv) draft
                                  (extract_criteria (api_key sv) (llm_criteria sv) user_query) fcs
                           else draft),
            json_file = save_json_report user_query draft
                          (if overall score < 3.5
                           then auto_fix_draft (api_key sv) (llm_fix sv) draft
                                  (extract_criteria (api_key sv) (llm_criteria sv) user_query) fcs
                           else draft)
                          (extract_criteria (api_key sv) (llm_criteria sv) user_query) fcs score,
            printed = (if overall score < 3.5 then lines @ [CalculatingScores, AutoFixing]
                       else lines @ [CalculatingScores]) @ [GeneratingReports]\<rparr>"
  using assms
  unfolding generate_report_def Let_def
  by (auto split: sum.splits prod.splits)


lemma generate_report_returns:
  assumes "check_claims sv (min (length claims) 10) 1 (take 10 claims)
             [Starting, ExtractingCriteria, ExtractingClaims, FoundClaims (length claims),
              FactChecking] [] = Inr (lines, fcs)"
    and "claims = extract_claims (api_key sv) (llm_claims sv) draft"
    and "score_report draft (extract_criteria (api_key sv) (llm_criteria sv) user_query) fcs
           = Inr score"
  shows "\<exists>out. generate_report sv user_query draft = Inr out \<and> result_score out = score"
  using assms by (simp add: generate_report_def Let_def)





section \<open>Criteria extraction\<close>

text \<open>
  C9. Without a key (the variable unset or empty) \<open>extract_criteria\<close> takes the
  fallback, and for the query "Compare the best databases" the goals are "Provide
  comprehensive comparison" and "Identify best options with justification", in this
  order.
\<close>

theorem compare_best_goals:
  "extract_criteria None llm ''Compare the best databases''
     = extract_criteria_basic ''Compare the best databases'' \<and>
   extract_criteria (Some []) llm ''Compare the best databases''
     = extract_criteria_basic ''Compare the best databases'' \<and>
   goals (extract_criteria None llm ''Compare the best databases'')
     = [''Provide comprehensive comparison'', ''Identify best options with justification''] \<and>
   goals (extract_criteria (Some []) llm ''Compare the best databases'')
     = [''Provide comprehensive comparison'', ''Identify best options with justification'']"
  by (simp add: extract_criteria_def no_key_def extract_criteria_basic_def Let_def
        lower_eval)

section \<open>The revision threshold\<close>

lemma demo_criteria_run:
  "extract_criteria (api_key demo_services) (llm_criteria demo_services) q = demo_criteria"
  by (simp add: extract_criteria_def demo_services_def no_key_def)

lemma demo_claims_run:
  "extract_claims (api_key demo_services) (llm_claims demo_services) d = demo_claims"
  by (simp add: extract_claims_def demo_services_def no_key_def)

lemma demo_check_run:
  "check_claims demo_services shown i demo_claims lines [] =
     Inr (lines @ [CheckingClaim i shown, CheckingClaim (i + 1) shown],
          [\<lparr>claim = ''c1'', verdict = ''supported'', confidence = 0.9,
            rationale = ''Matches'', sources = demo_search ''c1'' 3\<rparr>,
           \<lparr>claim = ''c2'', verdict = ''supported'', confidence = 0.9,
            rationale = ''Matches'', sources = demo_search ''c2'' 3\<rparr>])"
  by (simp add: demo_services_def demo_claims_def fact_check_claim_def no_key_def Let_def)

lemma demo_sources:
  "card (unique_sources
          [\<lparr>claim = ''c1'', verdict = ''supported'', confidence = 0.9,
            rationale = ''Matches'', sources = demo_search ''c1'' 3\<rparr>,
           \<lparr>claim = ''c2'', verdict = ''supported'', confidence = 0.9,
            rationale = ''Matches'', sources = demo_search ''c2'' 3\<rparr>]) = 6"
  by (simp add: unique_sources_def demo_search_def)

lemma demo_covered:
  "filter (\<lambda>item. contains (lower item) (lower ''alpha beta'')) (must_include demo_criteria)
     = [''alpha'', ''beta'']"
  by (simp add: demo_criteria_def lower_eval)

lemma demo_score:
  "\<exists>s. score_report ''alpha beta'' demo_criteria
          [\<lparr>claim = ''c1'', verdict = ''supported'', confidence = 0.9,
            rationale = ''Matches'', sources = demo_search ''c1'' 3\<rparr>,
           \<lparr>claim = ''c2'', verdict = ''supported'', confidence = 0.9,
            rationale = ''Matches'', sources = demo_search ''c2'' 3\<rparr>] = Inr s \<and>
        overall s = 4"
  by (simp add: score_report_eq demo_sources demo_covered calculate_overall_def clarity_cases)
     (simp add: demo_criteria_def)

lemma demo_run:
  "\<exists>out. generate_report demo_services ''q'' ''alpha beta'' = Inr out \<and>
         overall (result_score out) = 4"
proof -
  obtain s where s: "score_report ''alpha beta'' demo_criteria
          [\<lparr>claim = ''c1'', verdict = ''supported'', confidence = 0.9,
            rationale = ''Matches'', sources = demo_search ''c1'' 3\<rparr>,
           \<lparr>claim = ''c2'', verdict = ''supported'', confidence = 0.9,
            rationale = ''Matches'', sources = demo_search ''c2'' 3\<rparr>] = Inr s"
      "overall s = 4"
    using demo_score by blast
  have "\<exists>out. generate_report demo_services ''q'' ''alpha beta'' = Inr out \<and>
          result_score out = s"
  proof (rule generate_report_returns)
    show "demo_claims = extract_claims (api_key demo_services) (llm_claims demo_services)
            ''alpha beta''"
      by (simp only: demo_claims_run)
    show "score_report ''alpha beta''
            (extract_criteria (api_key demo_services) (llm_criteria demo_services) ''q'')
            [\<lparr>claim = ''c1'', verdict = ''supported'', confidence = 0.9,
              rationale = ''Matches'', sources = demo_search ''c1'' 3\<rparr>,
             \<lparr>claim = ''c2'', verdict = ''supported'', confidence = 0.9,
              rationale = ''Matches'', sources = demo_search ''c2'' 3\<rparr>] = Inr s"
      by (simp only: demo_criteria_run s)
    have "length demo_claims = 2" by (simp add: demo_claims_def)
    then show "check_claims demo_services (min (length demo_claims) 10) 1 (take 10 demo_claims)
             [Starting, ExtractingCriteria, ExtractingClaims, FoundClaims (length demo_claims),
              FactChecking] [] =
            Inr ([Starting, ExtractingCriteria, ExtractingClaims, FoundClaims (length demo_claims),
                  FactChecking] @ [CheckingClaim 1 2, CheckingClaim 2 2],
          [\<lparr>claim = ''c1'', verdict = ''supported'', confidence = 0.9,
            rationale = ''Matches'', sources = demo_search ''c1'' 3\<rparr>,
           \<lparr>claim = ''c2'', verdict = ''supported'', confidence = 0.9,
            rationale = ''Matches'', sources = demo_search ''c2'' 3\<rparr>])"
      by (simp add: demo_check_run)
  qed
  with s show ?thesis by auto
qed

lemma offline_criteria:
  "must_include (extract_criteria (api_key offline_services) (llm_criteria offline_services)
     ''q'') = []"
  by (simp add: extract_criteria_def offline_services_def no_key_def
        extract_criteria_basic_def lower_eval match_here_def match_verb_def
        verbs_def List.map_filter_simps Let_def)

lemma offline_claims:
  "extract_claims (api_key offline_services) (llm_claims offline_services) ''alpha beta'' = []"
  by (simp add: extract_claims_def offline_services_def no_key_def extract_claims_basic_def
        split_sep_def strip_def isspace_def Let_def)

lemma offline_run:
  "\<exists>out. generate_report offline_services ''q'' ''alpha beta'' = Inr out \<and>
         overall (result_score out) = 0.3"
proof -
  have "\<exists>s. score_report ''alpha beta''
            (extract_criteria (api_key offline_services) (llm_criteria offline_services) ''q'')
            [] = Inr s \<and> overall s = 0.3"
    by (simp add: score_report_eq offline_criteria calculate_overall_def clarity_cases
          unique_sources_def)
  then obtain s where s: "score_report ''alpha beta''
            (extract_criteria (api_key offline_services) (llm_criteria offline_services) ''q'')
            [] = Inr s" "overall s = 0.3"
    by blast
  have "\<exists>out. generate_report offline_services ''q'' ''alpha beta'' = Inr out \<and>
          result_score out = s"
  proof (rule generate_report_returns)
    show "[] = extract_claims (api_key offline_services) (llm_claims offline_services)
            ''alpha beta''"
      by (simp only: offline_claims)
    show "score_report ''alpha beta''
            (extract_criteria (api_key offline_services) (llm_criteria offline_services) ''q'')
            [] = Inr s"
      by (rule s)
    show "check_claims offline_services (min (length []) 10) 1 (take 10 [])
             [Starting, ExtractingCriteria, ExtractingClaims, FoundClaims (length []),
              FactChecking] [] =
            Inr ([Starting, ExtractingCriteria, ExtractingClaims, FoundClaims (length []),
                  FactChecking], [])"
      by simp
  qed
  with s show ?thesis by auto
qed

text \<open>
  C7. In a run of the pipeline that returns, the revision step runs exactly when the
  overall score is below 3.5: then the fixed draft is what \<open>auto_fix_draft\<close> returns
  and the JSON report says \<open>auto_fixed\<close>. At 3.5 or above the draft is left as it is,
  and the JSON report holds \<open>auto_fixed\<close> false and \<open>fixed_draft_length\<close> null.
\<close>

theorem revision_threshold:
  "generate_report sv user_query draft = Inr out \<longrightarrow>
     (AutoFixing \<in> set (printed out) \<longleftrightarrow> overall (result_score out) < 3.5) \<and>
     (overall (result_score out) < 3.5 \<longrightarrow>
        fixed_draft out = auto_fix_draft (api_key sv) (llm_fix sv) draft
                            (result_criteria out) (result_fact_checks out) \<and>
        auto_fixed (json_file out)) \<and>
     (3.5 \<le> overall (result_score out) \<longrightarrow>
        fixed_draft out = draft \<and>
        auto_fixed (json_file out) = False \<and>
        fixed_draft_length (json_file out) = None)"
proof
  assume "generate_report sv user_query draft = Inr out"
  then obtain lines fcs score where
    c: "check_claims sv (min (length (extract_claims (api_key sv) (llm_claims sv) draft)) 10) 1
       (take 10 (extract_claims (api_key sv) (llm_claims sv) draft))
       [Starting, ExtractingCriteria, ExtractingClaims,
        FoundClaims (length (extract_claims (api_key sv) (llm_claims sv) draft)), FactChecking]
       [] = Inr (lines, fcs)"
    and o: "out = \<lparr>result_score = score,
            result_criteria = extract_criteria (api_key sv) (llm_criteria sv) user_query,
            result_fact_checks = fcs,
            fixed_draft = (if overall score < 3.5
                           then auto_fix_draft (api_key sv) (llm_fix sv) draft
                                  (extract_criteria (api_key sv) (llm_criteria sv) user_query) fcs
                           else draft),
            json_file = save_json_report user_query draft
                          (if overall score < 3.5
                           then auto_fix_draft (api_key sv) (llm_fix sv) draft
                                  (extract_criteria (api_key sv) (llm_criteria sv) user_query) fcs
                           else draft)
                          (extract_criteria (api_key sv) (llm_criteria sv) user_query) fcs score,
            printed = (if overall score < 3.5 then lines @ [CalculatingScores, AutoFixing]
                       else lines @ [CalculatingScores]) @ [GeneratingReports]\<rparr>"
    by (rule generate_report_cases)
  from check_claims_result(2) [OF c] have n: "AutoFixing \<notin> set lines" by simp
  show "(AutoFixing \<in> set (printed out) \<longleftrightarrow> overall (result_score out) < 3.5) \<and>
     (overall (result_score out) < 3.5 \<longrightarrow>
        fixed_draft out = auto_fix_draft (api_key sv) (llm_fix sv) draft
                            (result_criteria out) (result_fact_checks out) \<and>
        auto_fixed (json_file out)) \<and>
     (3.5 \<le> overall (result_score out) \<longrightarrow>
        fixed_draft out = draft \<and>
        auto_fixed (json_file out) = False \<and>
        fixed_draft_length (json_file out) = None)"
    using n by (simp add: o save_json_report_def)
qed

theorem revision_threshold_witness:
  "(\<exists>out. generate_report demo_services ''q'' ''alpha beta'' = Inr out \<and>
      overall (result_score out) = 4 \<and>
      AutoFixing \<notin> set (printed out) \<and>
      fixed_draft out = ''alpha beta'' \<and>
      auto_fixed (json_file out) = False \<and>
      fixed_draft_length (json_file out) = None) \<and>
   (\<exists>out. generate_report offline_services ''q'' ''alpha beta'' = Inr out \<and>
      overall (result_score out) < 3.5 \<and>
      AutoFixing \<in> set (printed out) \<and>
      auto_fixed (json_file out))"
proof -
  obtain a where a: "generate_report demo_services ''q'' ''alpha beta'' = Inr a"
      "overall (result_score a) = 4"
    using demo_run by blast
  obtain b where b: "generate_report offline_services ''q'' ''alpha beta'' = Inr b"
      "overall (result_score b) = 0.3"
    using offline_run by blast
  from revision_threshold [of demo_services "''q''" "''alpha beta''" a] a
  have "AutoFixing \<notin> set (printed a) \<and> fixed_draft a = ''alpha beta'' \<and>
        auto_fixed (json_file a) = False \<and> fixed_draft_length (json_file a) = None"
    by simp
  moreover
  from revision_threshold [of offline_services "''q''" "''alpha beta''" b] b
  have "overall (result_score b) < 3.5 \<and> AutoFixing \<in> set (printed b) \<and>
        auto_fixed (json_file b)"
    by simp
  ultimately show ?thesis using a b by blast
qed

end
